theory Spec2Isabelle
  imports Complex_Main "HOL-Library.AList"
begin

section \<open>Configuration\<close>

text \<open>
  The constants of \<^verbatim>\<open>server.py\<close>. \<^verbatim>\<open>DATA_FILE\<close> is the default of the
  environment variable of the same name; nothing below depends on the name itself.
  The cap of 60 coins is the literal of \<^verbatim>\<open>coins[:60]\<close>.
\<close>

definition MAX_SNAPS :: nat where
  "MAX_SNAPS = 48"

definition DATA_FILE :: string where
  "DATA_FILE = ''snapshots.json''"

definition COIN_CAP :: nat where
  "COIN_CAP = 60"

section \<open>Numbers\<close>

text \<open>
  Python floats are modelled by exact rationals: sums, quotients and comparisons are the
  mathematical ones, and there is no NaN and no infinity. \<^verbatim>\<open>round(x, n)\<close> rounds to
  \<open>n\<close> decimal places, a tie going to the even neighbour.
\<close>

definition round_half_even :: "rat \<Rightarrow> int" where
  "round_half_even x =
     (let f = \<lfloor>x\<rfloor>; d = x - of_int f
      in if d < 1 / 2 then f
         else if 1 / 2 < d then f + 1
         else if even f then f else f + 1)"

definition py_round :: "rat \<Rightarrow> nat \<Rightarrow> rat" where
  "py_round x n = of_int (round_half_even (x * 10 ^ n)) / 10 ^ n"

section \<open>Data model\<close>

text \<open>
  One entry of \<^verbatim>\<open>pos["assetPositions"]\<close>, as \<^verbatim>\<open>take_snapshot\<close> reads it. A field
  is \<open>None\<close> when reading it raises: \<open>szi\<close> when \<^verbatim>\<open>ap["position"]\<close> or
  \<^verbatim>\<open>p["szi"]\<close> is missing or \<^verbatim>\<open>float\<close> rejects it, \<open>positionValue\<close> and
  \<open>coin\<close> likewise.
\<close>

record raw_position =
  szi :: "rat option"
  positionValue :: "rat option"
  coin :: "string option"

text \<open>
  What \<^verbatim>\<open>fetch_positions(trader["ethAddress"])\<close> gives for one leaderboard row:
  it raises (\<open>FetchError\<close>), it returns a falsy value or one without the key
  \<^verbatim>\<open>assetPositions\<close> (\<open>NoPositions\<close>), or it returns the list under that key.
\<close>

datatype fetch_result =
    FetchError
  | NoPositions
  | Positions "raw_position list"

text \<open>The value of one key of \<^verbatim>\<open>coin_data\<close>.\<close>

record coin_agg =
  lN :: rat
  sN :: rat
  lT :: nat
  sT :: nat

text \<open>
  The local variables of the fetch loop. \<^verbatim>\<open>coin_data\<close> is a Python dict, which
  iterates in insertion order: an association list with distinct keys, a new key going
  to the end.
\<close>

record agg_state =
  coin_data :: "(string \<times> coin_agg) list"
  total_long :: rat
  total_short :: rat
  loaded :: nat
  errors :: nat

text \<open>
  One element of \<^verbatim>\<open>coins\<close>: the keys \<^verbatim>\<open>lN\<close>, \<^verbatim>\<open>sN\<close>, \<^verbatim>\<open>lT\<close>, \<^verbatim>\<open>sT\<close> of
  the accumulator (the notionals now rounded) and the keys \<^verbatim>\<open>c\<close>, \<^verbatim>\<open>r\<close>, \<^verbatim>\<open>t\<close>.
\<close>

record coin_summary = coin_agg +
  c :: string
  r :: rat
  t :: rat

record snapshot =
  ts :: int
  gR :: rat
  tL :: rat
  tS :: rat
  traders :: nat
  coins :: "coin_summary list"

section \<open>The fetch loop of \<^verbatim>\<open>take_snapshot\<close>\<close>

definition init_state :: agg_state where
  "init_state = \<lparr>coin_data = [], total_long = 0, total_short = 0, loaded = 0, errors = 0\<rparr>"

definition zero_agg :: coin_agg where
  "zero_agg = \<lparr>lN = 0, sN = 0, lT = 0, sT = 0\<rparr>"

text \<open>Lines 91 to 100: one record with a non-zero value enters the accumulators.\<close>

definition accumulate :: "string \<Rightarrow> rat \<Rightarrow> rat \<Rightarrow> agg_state \<Rightarrow> agg_state" where
  "accumulate cn sz val st =
     (let cd = (if map_of (coin_data st) cn = None
                then coin_data st @ [(cn, zero_agg)] else coin_data st)
      in if sz > 0
         then st\<lparr>coin_data := AList.map_entry cn (\<lambda>d. d\<lparr>lN := lN d + val, lT := lT d + 1\<rparr>) cd,
                 total_long := total_long st + val\<rparr>
         else st\<lparr>coin_data := AList.map_entry cn (\<lambda>d. d\<lparr>sN := sN d + val, sT := sT d + 1\<rparr>) cd,
                 total_short := total_short st + val\<rparr>)"

text \<open>
  The inner loop over one trader's positions. The second component is \<open>False\<close> when a
  read raised: the loop stops there, and what was accumulated before stays.
\<close>

fun positions_loop :: "raw_position list \<Rightarrow> agg_state \<Rightarrow> agg_state \<times> bool" where
  "positions_loop [] st = (st, True)"
| "positions_loop (p # ps) st =
     (case szi p of
        None \<Rightarrow> (st, False)
      | Some sz \<Rightarrow>
          (case positionValue p of
             None \<Rightarrow> (st, False)
           | Some val \<Rightarrow>
               if val = 0 then positions_loop ps st
               else (case coin p of
                       None \<Rightarrow> (st, False)
                     | Some cn \<Rightarrow> positions_loop ps (accumulate cn sz val st))))"

text \<open>
  The body of the loop over the traders: \<^verbatim>\<open>continue\<close> without counting on an empty
  response, \<^verbatim>\<open>loaded += 1\<close> when the inner loop completed, \<^verbatim>\<open>errors += 1\<close> in the
  handler.
\<close>

definition trader_step :: "agg_state \<Rightarrow> fetch_result \<Rightarrow> agg_state" where
  "trader_step st res =
     (case res of
        FetchError \<Rightarrow> st\<lparr>errors := errors st + 1\<rparr>
      | NoPositions \<Rightarrow> st
      | Positions aps \<Rightarrow>
          (case positions_loop aps st of
             (st', True) \<Rightarrow> st'\<lparr>loaded := loaded st' + 1\<rparr>
           | (st', False) \<Rightarrow> st'\<lparr>errors := errors st' + 1\<rparr>))"

definition fetch_loop :: "fetch_result list \<Rightarrow> agg_state" where
  "fetch_loop results = foldl trader_step init_state results"

section \<open>Building the snapshot\<close>

text \<open>Lines 109 to 122: one summary per key of \<^verbatim>\<open>coin_data\<close> whose total is not zero.\<close>

fun build_coins :: "(string \<times> coin_agg) list \<Rightarrow> coin_summary list" where
  "build_coins [] = []"
| "build_coins ((cn, d) # rest) =
     (let tot = lN d + sN d
      in if tot = 0 then build_coins rest
         else \<lparr>lN = py_round (lN d) 2, sN = py_round (sN d) 2, lT = lT d, sT = sT d,
               c = cn, r = py_round (lN d / tot) 4, t = py_round tot 2\<rparr> # build_coins rest)"

text \<open>
  \<^verbatim>\<open>coins.sort(key=lambda x: x["t"], reverse=True)\<close>: Python's sort is stable, also
  with \<^verbatim>\<open>reverse=True\<close>, so it is the stable sort by the negated key.
\<close>

definition sort_coins :: "coin_summary list \<Rightarrow> coin_summary list" where
  "sort_coins cs = sort_key (\<lambda>x. - t x) cs"

text \<open>Lines 125 to 133, the clock reading \<open>now\<close> given.\<close>

definition make_snap :: "int \<Rightarrow> agg_state \<Rightarrow> snapshot" where
  "make_snap now st =
     (let cs = sort_coins (build_coins (coin_data st));
          total = total_long st + total_short st
      in \<lparr>ts = now,
          gR = (if total > 0 then py_round (total_long st / total) 4 else 0),
          tL = py_round (total_long st) 2,
          tS = py_round (total_short st) 2,
          traders = loaded st,
          coins = take COIN_CAP cs\<rparr>)"

definition aggregate :: "int \<Rightarrow> fetch_result list \<Rightarrow> snapshot" where
  "aggregate now results = make_snap now (fetch_loop results)"

section \<open>The retention store\<close>

text \<open>
  The file system, as far as the program looks at it: the text of each file that exists.
  The \<^verbatim>\<open>json\<close> module is not part of the program: \<^verbatim>\<open>json.dumps\<close> and
  \<^verbatim>\<open>json.loads\<close> are the parameters \<open>dumps\<close> and \<open>loads\<close>, the latter giving
  \<open>None\<close> where reading or parsing raises. The decoded value is returned as it is, with
  no check of its shape.
\<close>

type_synonym store = "string \<rightharpoonup> string"

definition load_snapshots :: "(string \<Rightarrow> 'a list option) \<Rightarrow> store \<Rightarrow> 'a list" where
  "load_snapshots loads fs =
     (case fs DATA_FILE of
        None \<Rightarrow> []
      | Some txt \<Rightarrow> (case loads txt of Some snaps \<Rightarrow> snaps | None \<Rightarrow> []))"

text \<open>
  \<^verbatim>\<open>Path.write_text\<close> opens the file itself for writing, which empties it, and then
  writes the text: the states the file system goes through, the last one being the
  state when the call returns.
\<close>

definition write_text :: "string \<Rightarrow> string \<Rightarrow> store \<Rightarrow> store list" where
  "write_text path txt fs = [fs(path \<mapsto> []), fs(path \<mapsto> txt)]"

definition save_snapshots_steps :: "('a list \<Rightarrow> string) \<Rightarrow> 'a list \<Rightarrow> store \<Rightarrow> store list" where
  "save_snapshots_steps dumps snaps fs = write_text DATA_FILE (dumps snaps) fs"

definition save_snapshots :: "('a list \<Rightarrow> string) \<Rightarrow> 'a list \<Rightarrow> store \<Rightarrow> store" where
  "save_snapshots dumps snaps fs = last (save_snapshots_steps dumps snaps fs)"

text \<open>The slice \<^verbatim>\<open>xs[i:]\<close> of Python: a negative \<open>i\<close> counts from the end.\<close>

definition py_slice_from :: "int \<Rightarrow> 'a list \<Rightarrow> 'a list" where
  "py_slice_from i xs =
     (let n = int (length xs);
          j = (if i < 0 then max 0 (n + i) else min i n)
      in drop (nat j) xs)"

text \<open>Lines 141 to 143: append, then keep the last \<^verbatim>\<open>MAX_SNAPS\<close>.\<close>

definition append_snap :: "'a list \<Rightarrow> 'a \<Rightarrow> 'a list" where
  "append_snap snaps snap =
     (let snaps' = snaps @ [snap]
      in if length snaps' > MAX_SNAPS then py_slice_from (- int MAX_SNAPS) snaps'
         else snaps')"

text \<open>
  \<^verbatim>\<open>take_snapshot\<close> as a whole, the leaderboard fetched: the outcome of the fetch for
  each of its rows, the clock and the file system come in, the snapshot and the new file
  system come out.
\<close>

definition take_snapshot ::
  "(snapshot list \<Rightarrow> string) \<Rightarrow> (string \<Rightarrow> snapshot list option) \<Rightarrow>
     int \<Rightarrow> fetch_result list \<Rightarrow> store \<Rightarrow> snapshot \<times> store" where
  "take_snapshot dumps loads now results fs =
     (let snap = aggregate now results;
          snaps = append_snap (load_snapshots loads fs) snap
      in (snap, save_snapshots dumps snaps fs))"

section \<open>The records that enter a snapshot\<close>

text \<open>
  The position records of the specification, and which of them the fetch loop takes in:
  of a trader whose fetch returned a list, the records up to the first one that cannot be
  read, those with a zero value left out. A record is long when its size is positive and
  short otherwise.
\<close>

record position_record =
  asset :: string
  signedSize :: rat
  notionalValue :: rat

definition readable :: "raw_position \<Rightarrow> bool" where
  "readable p \<longleftrightarrow>
     szi p \<noteq> None \<and> positionValue p \<noteq> None \<and> (positionValue p = Some 0 \<or> coin p \<noteq> None)"

definition to_record :: "raw_position \<Rightarrow> position_record" where
  "to_record p = \<lparr>asset = the (coin p), signedSize = the (szi p),
                   notionalValue = the (positionValue p)\<rparr>"

definition included_of :: "fetch_result \<Rightarrow> position_record list" where
  "included_of res =
     (case res of
        Positions aps \<Rightarrow>
          map to_record (filter (\<lambda>p. positionValue p \<noteq> Some 0) (takeWhile readable aps))
      | _ \<Rightarrow> [])"

definition included :: "fetch_result list \<Rightarrow> position_record list" where
  "included results = concat (map included_of results)"

definition is_loaded :: "fetch_result \<Rightarrow> bool" where
  "is_loaded res = (case res of Positions aps \<Rightarrow> list_all readable aps | _ \<Rightarrow> False)"

definition is_error :: "fetch_result \<Rightarrow> bool" where
  "is_error res =
     (case res of
        Positions aps \<Rightarrow> \<not> list_all readable aps
      | FetchError \<Rightarrow> True
      | NoPositions \<Rightarrow> False)"











text \<open>
  The assets in the order in which the loop first meets them, and the place of an asset
  in that order.
\<close>

definition first_seen :: "'a list \<Rightarrow> 'a list" where
  "first_seen xs = rev (remdups (rev xs))"


text \<open>One included record entering the accumulators.\<close>

definition acc :: "agg_state \<Rightarrow> position_record \<Rightarrow> agg_state" where
  "acc st p = accumulate (asset p) (signedSize p) (notionalValue p) st"

text \<open>The entry of a coin in \<^verbatim>\<open>coin_data\<close>, the one line 92 creates if there is none.\<close>

definition current_agg :: "(string \<times> coin_agg) list \<Rightarrow> string \<Rightarrow> coin_agg" where
  "current_agg cd cn = (case map_of cd cn of None \<Rightarrow> zero_agg | Some d \<Rightarrow> d)"




section \<open>Example inputs\<close>

text \<open>
  The batch of the specification's scenario: trader A long 1000 of BTC, trader B short
  500 of BTC.
\<close>

definition trader_A :: fetch_result where
  "trader_A = Positions [\<lparr>szi = Some 1, positionValue = Some 1000, coin = Some ''BTC''\<rparr>]"

definition trader_B :: fetch_result where
  "trader_B = Positions [\<lparr>szi = Some (- 1), positionValue = Some 500, coin = Some ''BTC''\<rparr>]"




section \<open>The fetch loop and the included records\<close>

lemma positions_loop_acc:
  "positions_loop aps st = (foldl acc st (included_of (Positions aps)), list_all readable aps)"
proof (induction aps arbitrary: st)
  case Nil
  show ?case by (simp add: included_of_def)
next
  case (Cons p ps)
  show ?case
  proof (cases "szi p")
    case None
    then show ?thesis by (simp add: included_of_def readable_def)
  next
    case sz: (Some sz)
    show ?thesis
    proof (cases "positionValue p")
      case None
      with sz show ?thesis by (simp add: included_of_def readable_def)
    next
      case v: (Some v)
      show ?thesis
      proof (cases "v = 0")
        case True
        with sz v Cons.IH [of st] show ?thesis
          by (simp add: included_of_def readable_def)
      next
        case nz: False
        show ?thesis
        proof (cases "coin p")
          case None
          with sz v nz show ?thesis by (simp add: included_of_def readable_def)
        next
          case (Some cn)
          with sz v nz Cons.IH [of "accumulate cn sz v st"] show ?thesis
            by (simp add: included_of_def readable_def acc_def to_record_def)
        qed
      qed
    qed
  qed
qed

lemma accumulate_loaded [simp]: "loaded (accumulate cn sz v st) = loaded st"
  by (simp add: accumulate_def Let_def)

lemma accumulate_errors [simp]: "errors (accumulate cn sz v st) = errors st"
  by (simp add: accumulate_def Let_def)

lemma accumulate_counters:
  "accumulate cn sz v (st\<lparr>loaded := a, errors := b\<rparr>) = (accumulate cn sz v st)\<lparr>loaded := a, errors := b\<rparr>"
  by (simp add: accumulate_def Let_def)

lemma foldl_acc_counters:
  "foldl acc (st\<lparr>loaded := a, errors := b\<rparr>) ps = (foldl acc st ps)\<lparr>loaded := a, errors := b\<rparr>"
  by (induction ps arbitrary: st) (simp_all add: acc_def accumulate_counters)

lemma foldl_acc_loaded [simp]: "loaded (foldl acc st ps) = loaded st"
  by (induction ps arbitrary: st) (simp_all add: acc_def)

lemma foldl_acc_errors [simp]: "errors (foldl acc st ps) = errors st"
  by (induction ps arbitrary: st) (simp_all add: acc_def)

lemma trader_step_acc:
  "trader_step st res =
     (foldl acc st (included_of res))
       \<lparr>loaded := loaded st + (if is_loaded res then 1 else 0),
        errors := errors st + (if is_error res then 1 else 0)\<rparr>"
proof (cases res)
  case FetchError
  then show ?thesis by (simp add: trader_step_def included_of_def is_loaded_def is_error_def)
next
  case NoPositions
  then show ?thesis by (simp add: trader_step_def included_of_def is_loaded_def is_error_def)
next
  case (Positions aps)
  then show ?thesis
    by (simp add: trader_step_def positions_loop_acc is_loaded_def is_error_def)
qed

lemma foldl_trader_step:
  "foldl trader_step st results =
     (foldl acc st (included results))
       \<lparr>loaded := loaded st + length (filter is_loaded results),
        errors := errors st + length (filter is_error results)\<rparr>"
proof (induction results arbitrary: st)
  case Nil
  show ?case by (simp add: included_def)
next
  case (Cons res rest)
  have "foldl trader_step st (res # rest) = foldl trader_step (trader_step st res) rest"
    by simp
  also have "\<dots> = (foldl acc (trader_step st res) (included rest))
       \<lparr>loaded := loaded (trader_step st res) + length (filter is_loaded rest),
        errors := errors (trader_step st res) + length (filter is_error rest)\<rparr>"
    by (rule Cons.IH)
  also have "\<dots> = (foldl acc st (included (res # rest)))
       \<lparr>loaded := loaded st + length (filter is_loaded (res # rest)),
        errors := errors st + length (filter is_error (res # rest))\<rparr>"
    by (simp add: trader_step_acc foldl_acc_counters included_def)
  finally show ?case .
qed





lemma fetch_loop_loaded: "loaded (fetch_loop results) = length (filter is_loaded results)"
  by (simp add: fetch_loop_def foldl_trader_step init_state_def)

section \<open>The global ratio\<close>



section \<open>Zero size\<close>

lemma map_of_accumulate:
  "map_of (coin_data (accumulate cn sz v st)) cn =
     Some (if 0 < sz
           then (current_agg (coin_data st) cn)
                  \<lparr>lN := lN (current_agg (coin_data st) cn) + v,
                   lT := lT (current_agg (coin_data st) cn) + 1\<rparr>
           else (current_agg (coin_data st) cn)
                  \<lparr>sN := sN (current_agg (coin_data st) cn) + v,
                   sT := sT (current_agg (coin_data st) cn) + 1\<rparr>)"
  by (cases "map_of (coin_data st) cn")
     (simp_all add: accumulate_def Let_def AList.map_of_map_entry current_agg_def map_add_def)

text \<open>
  C10. A record with a non-zero value and size exactly 0 is counted short: its value
  goes to the short notional and the short count of its coin and to the short total.
  A record is counted long exactly when its size is positive.
\<close>

theorem zero_size_is_short:
  assumes "v \<noteq> 0"
    and "st' = fst (positions_loop [\<lparr>szi = Some sz, positionValue = Some v, coin = Some cn\<rparr>] st)"
    and "d = current_agg (coin_data st) cn"
  shows "(sz = 0 \<longrightarrow>
            map_of (coin_data st') cn = Some (d\<lparr>sN := sN d + v, sT := sT d + 1\<rparr>)
            \<and> total_short st' = total_short st + v
            \<and> total_long st' = total_long st)
         \<and> ((total_long st' = total_long st + v) = (0 < sz))
         \<and> ((map_of (coin_data st') cn = Some (d\<lparr>lN := lN d + v, lT := lT d + 1\<rparr>)) = (0 < sz))"
proof -
  have st': "st' = accumulate cn sz v st"
    using assms(1, 2) by simp
  have neq: "d\<lparr>sN := sN d + v, sT := sT d + 1\<rparr> \<noteq> d\<lparr>lN := lN d + v, lT := lT d + 1\<rparr>"
  proof
    assume "d\<lparr>sN := sN d + v, sT := sT d + 1\<rparr> = d\<lparr>lN := lN d + v, lT := lT d + 1\<rparr>"
    then have "lT (d\<lparr>sN := sN d + v, sT := sT d + 1\<rparr>) = lT (d\<lparr>lN := lN d + v, lT := lT d + 1\<rparr>)"
      by simp
    then show False by simp
  qed
  have totals: "total_long st' = (if 0 < sz then total_long st + v else total_long st)"
    "total_short st' = (if 0 < sz then total_short st else total_short st + v)"
    by (simp_all add: st' accumulate_def Let_def)
  have entry: "map_of (coin_data st') cn =
      Some (if 0 < sz then d\<lparr>lN := lN d + v, lT := lT d + 1\<rparr>
            else d\<lparr>sN := sN d + v, sT := sT d + 1\<rparr>)"
    by (simp add: st' map_of_accumulate assms(3))
  show ?thesis
  proof (cases "0 < sz")
    case True
    with totals entry show ?thesis by simp
  next
    case False
    with totals entry neq assms(1) show ?thesis by simp
  qed
qed

theorem zero_size_is_short_witness:
  "(7 :: rat) \<noteq> 0
   \<and> map_of (coin_data (fst (positions_loop
         [\<lparr>szi = Some 0, positionValue = Some 7, coin = Some ''ETH''\<rparr>] init_state))) ''ETH''
       = Some \<lparr>lN = 0, sN = 7, lT = 0, sT = 1\<rparr>
   \<and> total_short (fst (positions_loop
         [\<lparr>szi = Some 0, positionValue = Some 7, coin = Some ''ETH''\<rparr>] init_state)) = 7
   \<and> total_long (fst (positions_loop
         [\<lparr>szi = Some 0, positionValue = Some 7, coin = Some ''ETH''\<rparr>] init_state)) = 0"
proof -
  have nonzero: "(7 :: rat) \<noteq> 0"
    by simp
  have entry: "zero_agg = current_agg (coin_data init_state) ''ETH''"
    by (simp add: current_agg_def init_state_def)
  from zero_size_is_short [OF nonzero refl entry, of 0] nonzero
  show ?thesis by (simp add: zero_agg_def init_state_def)
qed

section \<open>Retention\<close>

lemma py_slice_from_last: "0 < m \<Longrightarrow> py_slice_from (- int m) xs = drop (length xs - m) xs"
  by (auto simp: py_slice_from_def Let_def max_def nat_diff_distrib')

lemma MAX_SNAPS_pos: "0 < MAX_SNAPS"
  by (simp add: MAX_SNAPS_def)

lemma append_snap_drop:
  "append_snap snaps snap = drop (Suc (length snaps) - MAX_SNAPS) (snaps @ [snap])"
  by (simp add: append_snap_def Let_def py_slice_from_last [OF MAX_SNAPS_pos])

lemma foldl_append_snap:
  "foldl append_snap [] xs = drop (length xs - MAX_SNAPS) xs"
proof (induction xs rule: rev_induct)
  case Nil
  show ?case by simp
next
  case (snoc x xs)
  have "foldl append_snap [] (xs @ [x]) = append_snap (drop (length xs - MAX_SNAPS) xs) x"
    by (simp add: snoc.IH)
  also have "\<dots> = drop (Suc (length xs) - MAX_SNAPS) (xs @ [x])"
  proof (cases "length xs \<le> MAX_SNAPS")
    case True
    then show ?thesis by (simp add: append_snap_drop)
  next
    case False
    then have "Suc (length xs) - (length xs - MAX_SNAPS + MAX_SNAPS) + (length xs - MAX_SNAPS)
                 = Suc (length xs) - MAX_SNAPS"
      by arith
    with False show ?thesis by (simp add: append_snap_drop)
  qed
  finally show ?case by simp
qed

text \<open>
  C3. Appending a snapshot and cutting leaves at most \<^verbatim>\<open>MAX_SNAPS\<close> entries, the
  last ones of the history with the new snapshot at its end, in their order; appending
  \<^verbatim>\<open>MAX_SNAPS + 5\<close> snapshots one after the other to the empty history leaves exactly
  \<^verbatim>\<open>MAX_SNAPS\<close> entries, the input without its first five.
\<close>

theorem retention:
  "length (append_snap snaps snap) \<le> MAX_SNAPS
   \<and> append_snap snaps snap = drop (Suc (length snaps) - MAX_SNAPS) (snaps @ [snap])
   \<and> (length xs = MAX_SNAPS + 5 \<longrightarrow>
        foldl append_snap [] xs = drop 5 xs \<and> length (foldl append_snap [] xs) = MAX_SNAPS)"
proof -
  have "length (append_snap snaps snap) \<le> MAX_SNAPS"
    using MAX_SNAPS_pos by (simp add: append_snap_drop)
  moreover have "length xs = MAX_SNAPS + 5 \<longrightarrow>
        foldl append_snap [] xs = drop 5 xs \<and> length (foldl append_snap [] xs) = MAX_SNAPS"
    by (simp add: foldl_append_snap)
  ultimately show ?thesis by (simp add: append_snap_drop)
qed

theorem retention_witness:
  "length (map (\<lambda>i. aggregate i []) [1..53]) = MAX_SNAPS + 5
   \<and> foldl append_snap [] (map (\<lambda>i. aggregate i []) [1..53]) = map (\<lambda>i. aggregate i []) [6..53]"
proof -
  have len: "length (map (\<lambda>i. aggregate i []) [1..53]) = MAX_SNAPS + 5"
    by (simp add: MAX_SNAPS_def)
  have "drop 5 [1..53] = [6..53]"
    by code_simp
  then have "drop 5 (map (\<lambda>i. aggregate i []) [1..53]) = map (\<lambda>i. aggregate i []) [6..53]"
    by (simp only: drop_map)
  with len retention [of "[]" "aggregate 0 []" "map (\<lambda>i. aggregate i []) [1..53]"]
  show ?thesis by simp
qed

section \<open>Persisting and loading\<close>



lemma load_after_save:
  "loads (dumps snaps) = Some snaps \<Longrightarrow> load_snapshots loads (save_snapshots dumps snaps fs) = snaps"
  by (simp add: load_snapshots_def save_snapshots_def save_snapshots_steps_def write_text_def)

lemma take_snapshot_history:
  assumes "take_snapshot dumps loads now results fs = (snap, fs')"
    and "loads (dumps (append_snap (load_snapshots loads fs) snap))
           = Some (append_snap (load_snapshots loads fs) snap)"
  shows "snap = aggregate now results"
    and "load_snapshots loads fs' = append_snap (load_snapshots loads fs) snap"
proof -
  from assms(1) show snap: "snap = aggregate now results"
    by (simp add: take_snapshot_def Let_def)
  from assms(1) have "fs' = save_snapshots dumps (append_snap (load_snapshots loads fs) snap) fs"
    by (auto simp: take_snapshot_def Let_def)
  with assms(2) show "load_snapshots loads fs' = append_snap (load_snapshots loads fs) snap"
    by (simp add: load_after_save)
qed



text \<open>
  C7, as the code has it. \<^verbatim>\<open>save_snapshots\<close> writes the data file in place: the
  file is emptied first, it holds the whole text of the history when the call returns,
  and no other path is touched on the way, so there is no temporary file and no rename.
\<close>

theorem save_in_place:
  "save_snapshots dumps snaps fs DATA_FILE = Some (dumps snaps)
   \<and> hd (save_snapshots_steps dumps snaps fs) DATA_FILE = Some []
   \<and> (\<forall>st \<in> set (save_snapshots_steps dumps snaps fs). \<forall>path. path \<noteq> DATA_FILE \<longrightarrow> st path = fs path)"
  by (simp add: save_snapshots_def save_snapshots_steps_def write_text_def)

theorem save_in_place_witness:
  "save_snapshots (\<lambda>snaps. ''[1,2]'') [1 :: int, 2] [DATA_FILE \<mapsto> ''[1]''] DATA_FILE
     = Some ''[1,2]''
   \<and> save_snapshots (\<lambda>snaps. ''[1,2]'') [1 :: int, 2] [DATA_FILE \<mapsto> ''[1]''] ''tmp'' = None"
  using save_in_place [of "\<lambda>snaps. ''[1,2]''" "[1 :: int, 2]" "[DATA_FILE \<mapsto> ''[1]'']"]
  by (simp add: save_snapshots_def save_snapshots_steps_def write_text_def DATA_FILE_def)

text \<open>
  The claim C7 itself fails: with a history on file, the first state that
  \<^verbatim>\<open>save_snapshots\<close> goes through has an empty data file, which is neither the old text
  nor the new one, and from which \<^verbatim>\<open>load_snapshots\<close> reads the empty history.
\<close>

theorem save_truncates_first:
  "hd (save_snapshots_steps (\<lambda>snaps. ''[1,2]'') [1 :: int, 2] [DATA_FILE \<mapsto> ''[1]'']) DATA_FILE = Some ''''
  \<and> load_snapshots (\<lambda>txt. if txt = ''[1]'' then Some [1 :: int] else if txt = ''[1,2]'' then Some [1, 2] else None)
     (hd (save_snapshots_steps (\<lambda>snaps. ''[1,2]'') [1 :: int, 2] [DATA_FILE \<mapsto> ''[1]''])) = []"
  by (simp add: save_snapshots_steps_def write_text_def load_snapshots_def)

section \<open>The accumulator of each coin\<close>


lemma set_first_seen [simp]: "set (first_seen xs) = set xs"
  by (simp add: first_seen_def)

lemma distinct_first_seen [simp]: "distinct (first_seen xs)"
  by (simp add: first_seen_def)












section \<open>Asset summaries\<close>









section \<open>A fetch that raises\<close>

lemma make_snap_errors: "make_snap now (st\<lparr>errors := e\<rparr>) = make_snap now st"
  by (simp add: make_snap_def Let_def)

lemma included_skip: "included (xs @ FetchError # ys) = included (xs @ ys)"
  by (simp add: included_def included_of_def)

lemma fetch_loop_skip:
  "fetch_loop (xs @ FetchError # ys) =
     (fetch_loop (xs @ ys))\<lparr>errors := errors (fetch_loop (xs @ ys)) + 1\<rparr>"
  unfolding fetch_loop_def foldl_trader_step included_skip
  by (simp add: is_loaded_def is_error_def)

text \<open>
  C5, as the code has it. A trader whose fetch raises is skipped: with the same clock the
  batch gives the very snapshot that it gives without that trader, the per-asset
  summaries, the totals and \<open>traders\<close> included; the step does not change \<open>loaded\<close>,
  and the loop goes on with the traders after it, only \<open>errors\<close> being one more.
  \<open>traders\<close> is one less than in the batch where that trader's fetch succeeds.
\<close>

theorem fetch_error_skipped:
  "aggregate now (xs @ FetchError # ys) = aggregate now (xs @ ys)
   \<and> loaded (trader_step st FetchError) = loaded st
   \<and> fetch_loop (xs @ FetchError # ys) =
       (fetch_loop (xs @ ys))\<lparr>errors := errors (fetch_loop (xs @ ys)) + 1\<rparr>
   \<and> (is_loaded b \<longrightarrow>
        traders (aggregate now (xs @ b # ys)) = traders (aggregate now (xs @ FetchError # ys)) + 1)"
proof -
  have same: "aggregate now (xs @ FetchError # ys) = aggregate now (xs @ ys)"
    by (simp add: aggregate_def fetch_loop_skip make_snap_errors)
  have step: "loaded (trader_step st FetchError) = loaded st"
    by (simp add: trader_step_def)
  have count: "traders (aggregate now zs) = length (filter is_loaded zs)" for zs
    by (simp add: aggregate_def make_snap_def Let_def fetch_loop_loaded)
  have "is_loaded b \<longrightarrow>
        traders (aggregate now (xs @ b # ys)) = traders (aggregate now (xs @ FetchError # ys)) + 1"
    by (simp add: count is_loaded_def)
  with same step fetch_loop_skip show ?thesis by simp
qed

theorem fetch_error_skipped_witness:
  "is_loaded trader_B
   \<and> traders (aggregate 0 [trader_A, trader_B]) = traders (aggregate 0 [trader_A, FetchError]) + 1
   \<and> aggregate 0 [trader_A, FetchError, trader_B] = aggregate 0 [trader_A, trader_B]"
proof -
  have ok: "is_loaded trader_B"
    by (simp add: is_loaded_def trader_B_def readable_def)
  from fetch_error_skipped [of 0 "[trader_A]" "[]" init_state trader_B]
       fetch_error_skipped [of 0 "[trader_A]" "[trader_B]" init_state trader_B] ok
  show ?thesis by simp
qed

text \<open>
  The claim C5 itself fails on the count: the batch with the failing trader and the
  batch without it both give \<open>traders = 2\<close>.
\<close>

theorem loaded_count_same:
  "traders (aggregate 0 [trader_A, FetchError, trader_B]) = 2
   \<and> traders (aggregate 0 [trader_A, trader_B]) = 2"
  by code_simp

section \<open>The order of the coins\<close>









end
